theory Spec2Isabelle
  imports Main "HOL-Library.Multiset"
begin

section \<open>Python strings\<close>

text \<open>
  A Python \<^verbatim>\<open>str\<close> is modelled as a \<^typ>\<open>string\<close> whose characters are the code
  points 0 to 255; strings with code points beyond that range are outside the model.
  On this range \<^verbatim>\<open>str.isspace\<close> holds of the code points 9 to 13, 28 to 32, 133 and
  160, and \<^verbatim>\<open>str.lower\<close> adds 32 to the code points 65 to 90 and 192 to 222 (215
  excepted) and leaves every other one alone.
\<close>

definition py_isspace :: "char \<Rightarrow> bool" where
  "py_isspace c =
     (let n = (of_char c :: nat)
      in (9 \<le> n \<and> n \<le> 13) \<or> (28 \<le> n \<and> n \<le> 32) \<or> n = 133 \<or> n = 160)"

definition py_lower_char :: "char \<Rightarrow> char" where
  "py_lower_char c =
     (let n = (of_char c :: nat)
      in if (65 \<le> n \<and> n \<le> 90) \<or> (192 \<le> n \<and> n \<le> 222 \<and> n \<noteq> 215)
         then char_of (n + 32) else c)"

text \<open>\<^verbatim>\<open>s.lower()\<close>\<close>

definition py_lower :: "string \<Rightarrow> string" where
  "py_lower s = map py_lower_char s"

text \<open>\<^verbatim>\<open>s.strip()\<close>: leading and trailing whitespace removed.\<close>

definition py_strip :: "string \<Rightarrow> string" where
  "py_strip s = rev (dropWhile py_isspace (rev (dropWhile py_isspace s)))"

text \<open>\<^verbatim>\<open>text.startswith(sub)\<close> and the substring test \<^verbatim>\<open>sub in text\<close>.\<close>

fun startswith :: "string \<Rightarrow> string \<Rightarrow> bool" where
  "startswith text [] = True"
| "startswith [] (c # sub) = False"
| "startswith (d # text) (c # sub) = (d = c \<and> startswith text sub)"

fun py_in :: "string \<Rightarrow> string \<Rightarrow> bool" where
  "py_in sub [] = (sub = [])"
| "py_in sub (d # text) = (startswith (d # text) sub \<or> py_in sub text)"

text \<open>\<^verbatim>\<open>sep.join(parts)\<close>\<close>

fun py_join :: "string \<Rightarrow> string list \<Rightarrow> string" where
  "py_join sep [] = []"
| "py_join sep [p] = p"
| "py_join sep (p # q # ps) = p @ sep @ py_join sep (q # ps)"

section \<open>Values read from JSON\<close>

text \<open>
  The value \<^verbatim>\<open>response.json()\<close> returns. A \<^verbatim>\<open>dict\<close> is an association list read
  with \<^const>\<open>map_of\<close>; numbers keep their integer part only, no operation looks at one.
\<close>

datatype json =
    JNull
  | JBool bool
  | JNum int
  | JStr string
  | JArr "json list"
  | JObj "(string \<times> json) list"

text \<open>The exceptions raised inside the handlers, and the error a tool reports.\<close>

datatype py_exn = AttributeError | TypeError | IndexError | RequestException | JSONDecodeError

datatype mcp_error = INVALID_PARAMS string | INTERNAL_ERROR string

text \<open>\<^verbatim>\<open>str(e)\<close> of an \<^verbatim>\<open>McpError\<close> is its message.\<close>

fun str_of_error :: "mcp_error \<Rightarrow> string" where
  "str_of_error (INVALID_PARAMS m) = m"
| "str_of_error (INTERNAL_ERROR m) = m"

text \<open>\<^verbatim>\<open>d.get(key, default)\<close> on a dict.\<close>

definition dict_get :: "(string \<times> json) list \<Rightarrow> string \<Rightarrow> json \<Rightarrow> json" where
  "dict_get d k dflt = (case map_of d k of None \<Rightarrow> dflt | Some v \<Rightarrow> v)"

text \<open>\<^verbatim>\<open>v.get(key, default)\<close> on any value: only a dict has the method.\<close>

fun json_get :: "json \<Rightarrow> string \<Rightarrow> json \<Rightarrow> py_exn + json" where
  "json_get (JObj d) k dflt = Inr (dict_get d k dflt)"
| "json_get v k dflt = Inl AttributeError"

text \<open>\<^verbatim>\<open>v.lower()\<close> on any value: only a string has the method.\<close>

fun json_lower :: "json \<Rightarrow> py_exn + string" where
  "json_lower (JStr s) = Inr (py_lower s)"
| "json_lower v = Inl AttributeError"

section \<open>The interest store\<close>

text \<open>
  \<^verbatim>\<open>USER_INTERESTS\<close> is the dict in memory; \<^verbatim>\<open>user_interests.json\<close> is the file.
  The file is absent, holds a document, or holds something \<^verbatim>\<open>json.load\<close> rejects.
\<close>

type_synonym store = "string \<rightharpoonup> string list"

datatype file_content = Absent | Unreadable | Document store

record state =
  USER_INTERESTS :: store
  interests_file :: file_content

text \<open>What the file system does to a write: it is environment, so it is an argument.\<close>

datatype write_outcome = Written | Open_failed | Write_interrupted

definition load_user_interests :: "file_content \<Rightarrow> store" where
  "load_user_interests f = (case f of Document m \<Rightarrow> m | Absent \<Rightarrow> Map.empty | Unreadable \<Rightarrow> Map.empty)"

text \<open>
  \<^verbatim>\<open>save_user_interests\<close> catches the \<^verbatim>\<open>IOError\<close> and only prints it. A failed
  \<^verbatim>\<open>open\<close> leaves the file alone; a write that fails after \<^verbatim>\<open>open(..., 'w')\<close> has
  truncated the file leaves an incomplete document.
\<close>

definition save_user_interests :: "write_outcome \<Rightarrow> state \<Rightarrow> state" where
  "save_user_interests w s =
     (case w of
        Written \<Rightarrow> s\<lparr>interests_file := Document (USER_INTERESTS s)\<rparr>
      | Open_failed \<Rightarrow> s
      | Write_interrupted \<Rightarrow> s\<lparr>interests_file := Unreadable\<rparr>)"

text \<open>The state the module starts in: \<^verbatim>\<open>USER_INTERESTS = load_user_interests()\<close>.\<close>

definition initial_state :: "file_content \<Rightarrow> state" where
  "initial_state f = \<lparr>USER_INTERESTS = load_user_interests f, interests_file = f\<rparr>"

text \<open>
  \<^verbatim>\<open>_user_interests\<close>: the guard on the identifier, then
  \<^verbatim>\<open>USER_INTERESTS.setdefault(puch_user_id, [])\<close>, which stores the empty list under
  a key that is not there yet.
\<close>

definition user_interests :: "state \<Rightarrow> string \<Rightarrow> (mcp_error + string list) \<times> state" where
  "user_interests s puch_user_id =
     (if puch_user_id = [] then (Inl (INVALID_PARAMS ''puch_user_id is required''), s)
      else case USER_INTERESTS s puch_user_id of
             Some l \<Rightarrow> (Inr l, s)
           | None \<Rightarrow> (Inr [], s\<lparr>USER_INTERESTS := (USER_INTERESTS s)(puch_user_id \<mapsto> [])\<rparr>))"

section \<open>Relevance and the news fetch\<close>

text \<open>
  \<^verbatim>\<open>calculate_relevance\<close>. The score starts at 0.0 and grows by 1.0 for each interest
  found; these floats are exact counts (for fewer than \<open>2\<^sup>5\<^sup>3\<close> interests), so the
  score is a \<^typ>\<open>nat\<close>. The text searched is the lowercased title, one space, the
  lowercased description.
\<close>

fun count_matches :: "string \<Rightarrow> string list \<Rightarrow> nat" where
  "count_matches content [] = 0"
| "count_matches content (interest # interests) =
     (if py_in (py_lower interest) content then 1 else 0) + count_matches content interests"

definition calculate_relevance :: "(string \<times> json) list \<Rightarrow> string list \<Rightarrow> py_exn + nat" where
  "calculate_relevance article interests =
     (case json_lower (dict_get article ''title'' (JStr [])) of
        Inl e \<Rightarrow> Inl e
      | Inr title \<Rightarrow>
          (case json_lower (dict_get article ''description'' (JStr [])) of
             Inl e \<Rightarrow> Inl e
           | Inr description \<Rightarrow> Inr (count_matches (title @ '' '' @ description) interests)))"

text \<open>One entry of \<^verbatim>\<open>formatted_articles\<close>.\<close>

record formatted_article =
  title :: json
  description :: json
  url :: json
  published_at :: json
  source :: json
  relevance_score :: nat

text \<open>The dict built in the body of the loop, its values evaluated in the order written.\<close>

definition format_article :: "string list \<Rightarrow> json \<Rightarrow> py_exn + formatted_article" where
  "format_article interests article =
     (case article of
        JObj d \<Rightarrow>
          (case json_get (dict_get d ''source'' (JObj [])) ''name'' (JStr []) of
             Inl e \<Rightarrow> Inl e
           | Inr name \<Rightarrow>
               (case calculate_relevance d interests of
                  Inl e \<Rightarrow> Inl e
                | Inr score \<Rightarrow>
                    Inr \<lparr>title = dict_get d ''title'' (JStr []),
                         description = dict_get d ''description'' (JStr []),
                         url = dict_get d ''url'' (JStr []),
                         published_at = dict_get d ''publishedAt'' (JStr []),
                         source = name,
                         relevance_score = score\<rparr>))
      | _ \<Rightarrow> Inl AttributeError)"

text \<open>The loop \<^verbatim>\<open>for article in articles[:5]\<close>: the first exception ends it.\<close>

fun format_articles :: "string list \<Rightarrow> json list \<Rightarrow> py_exn + formatted_article list" where
  "format_articles interests [] = Inr []"
| "format_articles interests (article # articles) =
     (case format_article interests article of
        Inl e \<Rightarrow> Inl e
      | Inr a \<Rightarrow>
          (case format_articles interests articles of
             Inl e \<Rightarrow> Inl e
           | Inr as \<Rightarrow> Inr (a # as)))"

text \<open>
  \<^verbatim>\<open>xs.sort(key=k, reverse=True)\<close>: a stable sort that keeps the input order of
  equal keys also when reversed; CPython reverses the list, sorts it stably and
  reverses it again.
\<close>

definition sort_reverse :: "('a \<Rightarrow> nat) \<Rightarrow> 'a list \<Rightarrow> 'a list" where
  "sort_reverse k xs = rev (sort_key k (rev xs))"

text \<open>The ranking step: the sort by score, highest first, and the slice \<^verbatim>\<open>[:5]\<close>.\<close>

definition rank_articles :: "formatted_article list \<Rightarrow> formatted_article list" where
  "rank_articles formatted_articles = take 5 (sort_reverse relevance_score formatted_articles)"

text \<open>
  What \<^verbatim>\<open>requests.get(url, params=params, timeout=10)\<close> comes back with: a timeout, a
  failure of the transport, or a response with its status code and its body, which
  \<^verbatim>\<open>response.json()\<close> parses or rejects (\<open>None\<close>). It is environment, so it is an argument.
\<close>

datatype http_outcome = Timeout | ConnectionFailed | Response nat "json option"

text \<open>\<^verbatim>\<open>response.raise_for_status()\<close> raises for the status codes 400 to 599.\<close>

definition raise_for_status :: "nat \<Rightarrow> bool" where
  "raise_for_status status_code = (400 \<le> status_code \<and> status_code < 600)"

text \<open>The query string: up to three interests joined by \<^verbatim>\<open>" OR "\<close>.\<close>

definition build_query :: "string list \<Rightarrow> string" where
  "build_query interests = py_join '' OR '' (take 3 interests)"

text \<open>\<^verbatim>\<open>articles[:5]\<close> and the loop over it, for whatever value \<^verbatim>\<open>articles\<close> is.\<close>

fun format_first_five :: "string list \<Rightarrow> json \<Rightarrow> py_exn + formatted_article list" where
  "format_first_five interests (JArr articles) = format_articles interests (take 5 articles)"
| "format_first_five interests (JStr []) = Inr []"
| "format_first_five interests (JStr (c # cs)) = Inl AttributeError"
| "format_first_five interests v = Inl TypeError"

text \<open>The body of the \<^verbatim>\<open>try\<close> in \<^verbatim>\<open>fetch_news_by_interests\<close>.\<close>

definition fetch_body :: "string list \<Rightarrow> http_outcome \<Rightarrow> py_exn + formatted_article list" where
  "fetch_body interests outcome =
     (case interests of
        [] \<Rightarrow> Inl IndexError
      | main_interest # _ \<Rightarrow>
          (case outcome of
             Timeout \<Rightarrow> Inl RequestException
           | ConnectionFailed \<Rightarrow> Inl RequestException
           | Response status_code body \<Rightarrow>
               if raise_for_status status_code then Inl RequestException
               else (case body of
                       None \<Rightarrow> Inl JSONDecodeError
                     | Some data \<Rightarrow>
                         (case json_get data ''articles'' (JArr []) of
                            Inl e \<Rightarrow> Inl e
                          | Inr articles \<Rightarrow>
                              (case format_first_five interests articles of
                                 Inl e \<Rightarrow> Inl e
                               | Inr formatted_articles \<Rightarrow>
                                   Inr (rank_articles formatted_articles))))))"

text \<open>Both \<^verbatim>\<open>except\<close> clauses print the exception and return the empty list.\<close>

definition fetch_news_by_interests :: "string list \<Rightarrow> http_outcome \<Rightarrow> formatted_article list" where
  "fetch_news_by_interests interests outcome =
     (case fetch_body interests outcome of Inl e \<Rightarrow> [] | Inr news_articles \<Rightarrow> news_articles)"

section \<open>The tools\<close>

text \<open>
  A tool returns the JSON text of a dict. The replies keep the fields that carry data
  (\<^verbatim>\<open>user_id\<close>, the interests, the counts, the articles, \<^verbatim>\<open>next_action\<close>); the
  \<^verbatim>\<open>message\<close> and \<^verbatim>\<open>suggestions\<close> texts are left out.
\<close>

datatype reply =
    Hello_reply string "string list" string
  | Set_reply string "string list" string
  | Interests_reply string "string list" nat string
  | News_reply string "string list" nat "formatted_article list" string

text \<open>
  \<^verbatim>\<open>hello_buzzbot\<close>. Its only handler is \<^verbatim>\<open>except Exception\<close>, which also catches the
  \<^verbatim>\<open>McpError\<close> of \<^verbatim>\<open>_user_interests\<close> and raises an internal error with its text.
\<close>

definition hello_buzzbot :: "state \<Rightarrow> string \<Rightarrow> string \<Rightarrow> (mcp_error + reply) \<times> state" where
  "hello_buzzbot s puch_user_id user_message =
     (let user_message_lower = py_strip (py_lower user_message)
      in case user_interests s puch_user_id of
           (Inl e, s') \<Rightarrow> (Inl (INTERNAL_ERROR (str_of_error e)), s')
         | (Inr existing_interests, s') \<Rightarrow>
             if py_in ''hello'' user_message_lower \<or> py_in ''hi'' user_message_lower then
               if existing_interests \<noteq> []
               then (Inr (Hello_reply puch_user_id existing_interests ''ready_for_news''), s')
               else (Inr (Hello_reply puch_user_id [] ''need_interests''), s')
             else (Inr (Hello_reply puch_user_id existing_interests ''general_help''), s'))"

text \<open>The list comprehension of \<^verbatim>\<open>set_interests\<close>.\<close>

definition clean_interests :: "string list \<Rightarrow> string list" where
  "clean_interests interests =
     map (\<lambda>interest. py_lower (py_strip interest))
         (filter (\<lambda>interest. py_strip interest \<noteq> []) interests)"

text \<open>
  \<^verbatim>\<open>set_interests\<close> never looks at the identifier: it writes
  \<^verbatim>\<open>USER_INTERESTS[puch_user_id]\<close> directly. Its \<^verbatim>\<open>McpError\<close>s are raised again as
  they are.
\<close>

definition set_interests ::
  "state \<Rightarrow> string \<Rightarrow> string list \<Rightarrow> write_outcome \<Rightarrow> (mcp_error + reply) \<times> state" where
  "set_interests s puch_user_id interests w =
     (if interests = [] then (Inl (INVALID_PARAMS ''interests must be a non-empty list''), s)
      else if clean_interests interests = []
      then (Inl (INVALID_PARAMS ''interests cannot be empty after cleaning''), s)
      else (Inr (Set_reply puch_user_id (clean_interests interests) ''ready_for_news''),
            save_user_interests w
              (s\<lparr>USER_INTERESTS := (USER_INTERESTS s)(puch_user_id \<mapsto> clean_interests interests)\<rparr>)))"

text \<open>\<^verbatim>\<open>get_interests\<close>: as in \<^verbatim>\<open>hello_buzzbot\<close>, every exception becomes an internal error.\<close>

definition get_interests :: "state \<Rightarrow> string \<Rightarrow> (mcp_error + reply) \<times> state" where
  "get_interests s puch_user_id =
     (case user_interests s puch_user_id of
        (Inl e, s') \<Rightarrow> (Inl (INTERNAL_ERROR (str_of_error e)), s')
      | (Inr interests, s') \<Rightarrow>
          (Inr (Interests_reply puch_user_id interests (length interests) ''show_interests''), s'))"

text \<open>\<^verbatim>\<open>get_latest_news\<close>: its \<^verbatim>\<open>McpError\<close>s are raised again as they are.\<close>

definition get_latest_news :: "state \<Rightarrow> string \<Rightarrow> http_outcome \<Rightarrow> (mcp_error + reply) \<times> state" where
  "get_latest_news s puch_user_id outcome =
     (case user_interests s puch_user_id of
        (Inl e, s') \<Rightarrow> (Inl e, s')
      | (Inr interests, s') \<Rightarrow>
          if interests = []
          then (Inl (INVALID_PARAMS
                  ''No interests set. Please set interests first using set_interests or say 'hello' to get started.''), s')
          else (let news_articles = fetch_news_by_interests interests outcome
                in if news_articles = []
                   then (Inr (News_reply puch_user_id interests 0 [] ''no_news_found''), s')
                   else (Inr (News_reply puch_user_id interests (length news_articles)
                                news_articles ''news_displayed''), s')))"

section \<open>Predicates of the specification\<close>

text \<open>The failure the specification calls \<open>InvalidArgument\<close>.\<close>

fun is_invalid_params :: "mcp_error + 'a \<Rightarrow> bool" where
  "is_invalid_params (Inl (INVALID_PARAMS m)) = True"
| "is_invalid_params r = False"

text \<open>A stored topic is non-empty, trimmed and lowercased; so is every topic of the store.\<close>

definition topic_ok :: "string \<Rightarrow> bool" where
  "topic_ok t = (t \<noteq> [] \<and> py_strip t = t \<and> py_lower t = t)"

definition store_inv :: "store \<Rightarrow> bool" where
  "store_inv m = (\<forall>uid l. m uid = Some l \<longrightarrow> list_all topic_ok l)"


text \<open>
  The score in the words of the specification: the count of topics that occur,
  case-insensitively, as a substring of the concatenation of title and description.
\<close>

definition spec_score :: "string \<Rightarrow> string \<Rightarrow> string list \<Rightarrow> nat" where
  "spec_score t d topics =
     length (filter (\<lambda>topic. py_in (py_lower topic) (py_lower (t @ d))) topics)"

text \<open>
  A candidate article as the specification has it: an object whose title and description
  are strings and whose source is an object, each of them possibly absent.
\<close>

fun is_str :: "json \<Rightarrow> bool" where
  "is_str (JStr s) = True"
| "is_str v = False"

fun is_obj :: "json \<Rightarrow> bool" where
  "is_obj (JObj d) = True"
| "is_obj v = False"

fun json_str :: "json \<Rightarrow> string" where
  "json_str (JStr s) = s"
| "json_str v = []"

fun well_formed_candidate :: "json \<Rightarrow> bool" where
  "well_formed_candidate (JObj d) =
     (is_str (dict_get d ''title'' (JStr [])) \<and>
      is_str (dict_get d ''description'' (JStr [])) \<and>
      is_obj (dict_get d ''source'' (JObj [])))"
| "well_formed_candidate v = False"

text \<open>
  The article of a candidate in the words of the specification: every field as the
  source supplied it, a missing one the empty string, and the relevance score the count
  of topics found in the lowercased title, a space and the lowercased description.
\<close>

fun source_name :: "json \<Rightarrow> json" where
  "source_name (JObj d) = dict_get d ''name'' (JStr [])"
| "source_name v = JStr []"

fun scored_article :: "string list \<Rightarrow> json \<Rightarrow> formatted_article" where
  "scored_article topics (JObj d) =
     \<lparr>title = dict_get d ''title'' (JStr []),
      description = dict_get d ''description'' (JStr []),
      url = dict_get d ''url'' (JStr []),
      published_at = dict_get d ''publishedAt'' (JStr []),
      source = source_name (dict_get d ''source'' (JObj [])),
      relevance_score =
        length (filter
          (\<lambda>topic. py_in (py_lower topic)
             (py_lower (json_str (dict_get d ''title'' (JStr []))) @ '' '' @
              py_lower (json_str (dict_get d ''description'' (JStr [])))))
          topics)\<rparr>"
| "scored_article topics v =
     \<lparr>title = JStr [], description = JStr [], url = JStr [], published_at = JStr [],
      source = JStr [], relevance_score = 0\<rparr>"


section \<open>Strings: substring, trimming, lowercasing\<close>

lemma startswith_iff: "startswith t sub \<longleftrightarrow> (\<exists>s. t = sub @ s)"
  by (induction t sub rule: startswith.induct) auto

lemma py_in_iff: "py_in sub t \<longleftrightarrow> (\<exists>p s. t = p @ sub @ s)"
proof (induction t)
  case Nil
  then show ?case by simp
next
  case (Cons d t)
  show ?case
  proof
    assume "py_in sub (d # t)"
    then consider "startswith (d # t) sub" | "py_in sub t" by auto
    then show "\<exists>p s. d # t = p @ sub @ s"
    proof cases
      case 1
      then obtain s where "d # t = sub @ s" by (auto simp: startswith_iff)
      then have "d # t = [] @ sub @ s" by simp
      then show ?thesis by blast
    next
      case 2
      then obtain p s where "t = p @ sub @ s" using Cons.IH by blast
      then have "d # t = (d # p) @ sub @ s" by simp
      then show ?thesis by blast
    qed
  next
    assume "\<exists>p s. d # t = p @ sub @ s"
    then obtain p s where ps: "d # t = p @ sub @ s" by blast
    show "py_in sub (d # t)"
    proof (cases p)
      case Nil
      with ps have "startswith (d # t) sub" by (auto simp: startswith_iff)
      then show ?thesis by simp
    next
      case (Cons e p')
      with ps have "t = p' @ sub @ s" by simp
      then have "py_in sub t" using Cons.IH by blast
      then show ?thesis by simp
    qed
  qed
qed

lemma count_matches_filter:
  "count_matches content interests =
     length (filter (\<lambda>i. py_in (py_lower i) content) interests)"
  by (induction interests) auto

lemma py_isspace_lower [simp]: "py_isspace (py_lower_char c) = py_isspace c"
  unfolding py_isspace_def py_lower_char_def Let_def by auto

lemma py_lower_char_idem [simp]: "py_lower_char (py_lower_char c) = py_lower_char c"
  unfolding py_lower_char_def Let_def by auto

lemma py_lower_idem [simp]: "py_lower (py_lower s) = py_lower s"
  by (simp add: py_lower_def)

lemma py_lower_Nil_iff [simp]: "py_lower s = [] \<longleftrightarrow> s = []"
  by (simp add: py_lower_def)

lemma dropWhile_space_lower:
  "dropWhile py_isspace (map py_lower_char s) = map py_lower_char (dropWhile py_isspace s)"
  by (induction s) auto

lemma py_strip_lower: "py_strip (py_lower s) = py_lower (py_strip s)"
  by (simp add: py_strip_def py_lower_def dropWhile_space_lower rev_map)


lemma last_dropWhile_keep: "dropWhile P xs \<noteq> [] \<Longrightarrow> last (dropWhile P xs) = last xs"
  by (induction xs) (auto split: if_splits)

lemma dropWhile_rev_nonempty: "dropWhile P (rev xs) \<noteq> [] \<Longrightarrow> xs \<noteq> []"
  by auto

lemma py_strip_ends:
  assumes "py_strip s \<noteq> []"
  shows "\<not> py_isspace (hd (py_strip s)) \<and> \<not> py_isspace (last (py_strip s))"
proof -
  let ?u = "dropWhile py_isspace s"
  let ?v = "dropWhile py_isspace (rev ?u)"
  from assms have v: "?v \<noteq> []" by (simp add: py_strip_def)
  have u: "?u \<noteq> []" using v by (rule dropWhile_rev_nonempty)
  have "last ?v = last (rev ?u)" using v by (rule last_dropWhile_keep)
  also have "\<dots> = hd ?u" using u by (simp add: last_rev)
  finally have "\<not> py_isspace (last ?v)" using hd_dropWhile [OF u] by simp
  moreover have "\<not> py_isspace (hd ?v)" using v by (rule hd_dropWhile)
  ultimately show ?thesis using v by (simp add: py_strip_def hd_rev last_rev)
qed

lemma py_strip_fixed:
  assumes "s = [] \<or> (\<not> py_isspace (hd s) \<and> \<not> py_isspace (last s))"
  shows "py_strip s = s"
proof (cases s)
  case Nil
  then show ?thesis by (simp add: py_strip_def)
next
  case (Cons c cs)
  then have ne: "s \<noteq> []" by simp
  with assms have h: "\<not> py_isspace (hd s)" and l: "\<not> py_isspace (last s)" by auto
  from h have "dropWhile py_isspace s = s" by (simp add: dropWhile_eq_self_iff)
  moreover have "hd (rev s) = last s" using ne by (simp add: hd_rev)
  with l have "dropWhile py_isspace (rev s) = rev s"
    by (simp add: dropWhile_eq_self_iff)
  ultimately show ?thesis by (simp add: py_strip_def)
qed

lemma py_strip_idem [simp]: "py_strip (py_strip s) = py_strip s"
  using py_strip_ends [of s] by (intro py_strip_fixed) blast

lemma py_strip_lower_strip: "py_strip (py_lower (py_strip s)) = py_lower (py_strip s)"
  by (simp add: py_strip_lower)

section \<open>The sort\<close>

lemma mset_sort_reverse [simp]: "mset (sort_reverse k xs) = mset xs"
  by (simp add: sort_reverse_def)

lemma length_sort_reverse [simp]: "length (sort_reverse k xs) = length xs"
  by (simp add: sort_reverse_def)

lemma sorted_sort_reverse: "sorted_wrt (\<lambda>a b. k b \<le> k a) (sort_reverse k xs)"
proof -
  have "sorted (map k (sort_key k (rev xs)))" by (rule sorted_sort_key)
  then have "sorted_wrt (\<lambda>a b. k a \<le> k b) (sort_key k (rev xs))"
    by (simp add: sorted_map)
  then show ?thesis
    by (simp add: sort_reverse_def sorted_wrt_rev)
qed

lemma stable_sort_reverse:
  "filter (\<lambda>a. k a = v) (sort_reverse k xs) = filter (\<lambda>a. k a = v) xs"
proof -
  have "filter (\<lambda>a. k a = v) (sort_key k (rev xs)) = filter (\<lambda>a. k a = v) (rev xs)"
    by (rule sort_key_stable)
  then show ?thesis by (simp add: sort_reverse_def rev_filter [symmetric])
qed

section \<open>The store and the tools: basic facts\<close>

lemma clean_interests_Nil_iff:
  "clean_interests interests = [] \<longleftrightarrow> (\<forall>t\<in>set interests. py_strip t = [])"
  by (simp add: clean_interests_def filter_empty_conv)

lemma clean_interests_spec:
  "clean_interests interests =
     filter (\<lambda>t. t \<noteq> []) (map (\<lambda>t. py_lower (py_strip t)) interests)"
  by (induction interests) (simp_all add: clean_interests_def)

lemma user_interests_empty_id:
  "user_interests s [] = (Inl (INVALID_PARAMS ''puch_user_id is required''), s)"
  by (simp add: user_interests_def)

lemma user_interests_known:
  "uid \<noteq> [] \<Longrightarrow> USER_INTERESTS s uid = Some l \<Longrightarrow> user_interests s uid = (Inr l, s)"
  by (simp add: user_interests_def)

lemma user_interests_unknown:
  "uid \<noteq> [] \<Longrightarrow> USER_INTERESTS s uid = None \<Longrightarrow>
   user_interests s uid = (Inr [], s\<lparr>USER_INTERESTS := (USER_INTERESTS s)(uid \<mapsto> [])\<rparr>)"
  by (simp add: user_interests_def)

lemma save_user_interests_memory [simp]:
  "USER_INTERESTS (save_user_interests w s) = USER_INTERESTS s"
  by (cases w) (simp_all add: save_user_interests_def)




lemma is_str_cases: "is_str v \<Longrightarrow> \<exists>s. v = JStr s"
  by (cases v) simp_all

lemma is_obj_cases: "is_obj v \<Longrightarrow> \<exists>d. v = JObj d"
  by (cases v) simp_all

lemma format_article_well_formed:
  assumes "well_formed_candidate a"
  shows "format_article interests a = Inr (scored_article interests a)"
proof -
  from assms obtain d where a: "a = JObj d" by (cases a) simp_all
  with assms obtain t de sd where
    f: "dict_get d ''title'' (JStr []) = JStr t"
       "dict_get d ''description'' (JStr []) = JStr de"
       "dict_get d ''source'' (JObj []) = JObj sd"
    by (auto dest!: is_str_cases is_obj_cases)
  then show ?thesis
    by (simp add: a format_article_def calculate_relevance_def count_matches_filter)
qed

lemma format_articles_well_formed:
  "list_all well_formed_candidate articles \<Longrightarrow>
   format_articles interests articles = Inr (map (scored_article interests) articles)"
  by (induction articles) (simp_all add: format_article_well_formed)

lemma fetch_well_formed:
  assumes "interests \<noteq> []" and "\<not> raise_for_status status_code"
    and "dict_get data ''articles'' (JArr []) = JArr articles"
    and "list_all well_formed_candidate (take 5 articles)"
  shows "fetch_news_by_interests interests (Response status_code (Some (JObj data))) =
           rank_articles (map (scored_article interests) (take 5 articles))"
proof -
  from assms(1) obtain i rest where "interests = i # rest" by (cases interests) auto
  with assms(2-4) show ?thesis
    by (simp add: fetch_news_by_interests_def fetch_body_def format_articles_well_formed)
qed

lemma fetch_cases:
  "fetch_news_by_interests interests outcome = [] \<or>
   (\<exists>status_code data formatted.
      outcome = Response status_code (Some (JObj data)) \<and> \<not> raise_for_status status_code \<and>
      format_first_five interests (dict_get data ''articles'' (JArr [])) = Inr formatted \<and>
      fetch_news_by_interests interests outcome = rank_articles formatted)"
proof (cases "fetch_body interests outcome")
  case (Inl e)
  then show ?thesis by (simp add: fetch_news_by_interests_def)
next
  case (Inr news)
  then obtain status_code data where o: "outcome = Response status_code (Some data)"
      and r: "\<not> raise_for_status status_code" and i: "interests \<noteq> []"
    by (auto simp: fetch_body_def
        split: list.splits http_outcome.splits option.splits if_splits)
  with Inr obtain d where d: "data = JObj d"
    by (cases data) (auto simp: fetch_body_def split: list.splits)
  from Inr o r i d obtain formatted where
    "format_first_five interests (dict_get d ''articles'' (JArr [])) = Inr formatted"
    "news = rank_articles formatted"
    by (auto simp: fetch_body_def split: list.splits sum.splits)
  with Inr o r d show ?thesis by (auto simp: fetch_news_by_interests_def)
qed

lemma fetch_at_most_five: "length (fetch_news_by_interests interests outcome) \<le> 5"
  using fetch_cases [of interests outcome] by (auto simp: rank_articles_def)

lemma topic_ok_clean: "t \<in> set (clean_interests interests) \<Longrightarrow> topic_ok t"
  by (auto simp: clean_interests_def topic_ok_def py_strip_lower_strip)

lemma store_inv_update:
  "store_inv m \<Longrightarrow> list_all topic_ok l \<Longrightarrow> store_inv (m(k \<mapsto> l))"
  by (simp add: store_inv_def)

lemma store_inv_user_interests:
  "store_inv (USER_INTERESTS s) \<Longrightarrow> store_inv (USER_INTERESTS (snd (user_interests s uid)))"
  by (auto simp: user_interests_def store_inv_update split: option.splits)

lemma count_list_clean:
  "py_strip t \<noteq> [] \<Longrightarrow>
   count_list interests t \<le> count_list (clean_interests interests) (py_lower (py_strip t))"
  by (induction interests) (auto simp: clean_interests_def)

lemma snd_hello_buzzbot:
  "snd (hello_buzzbot s uid msg) = snd (user_interests s uid)"
  by (cases "user_interests s uid") (auto simp: hello_buzzbot_def Let_def split: sum.splits)

lemma snd_get_interests:
  "snd (get_interests s uid) = snd (user_interests s uid)"
  by (cases "user_interests s uid") (auto simp: get_interests_def split: sum.splits)

lemma snd_get_latest_news:
  "snd (get_latest_news s uid outcome) = snd (user_interests s uid)"
  by (cases "user_interests s uid") (auto simp: get_latest_news_def Let_def split: sum.splits)

lemma calculate_relevance_null_description:
  "calculate_relevance [(''title'', JStr ''x''), (''description'', JNull)] [''x''] =
     Inl AttributeError"
  by code_simp

section \<open>Reading the interests of an unknown identifier\<close>

text \<open>
  Claim C10. When \<^verbatim>\<open>get_latest_news\<close> is called with a non-empty identifier that the
  map in memory does not hold, the call fails with \<open>InvalidArgument\<close>, and after the
  failure the map holds that identifier with the empty list: the entry made by the read
  is not taken back.
\<close>
theorem get_latest_news_unknown_identifier:
  assumes "puch_user_id \<noteq> []" and "USER_INTERESTS s puch_user_id = None"
  shows "is_invalid_params (fst (get_latest_news s puch_user_id outcome)) \<and>
         snd (get_latest_news s puch_user_id outcome) =
           s\<lparr>USER_INTERESTS := (USER_INTERESTS s)(puch_user_id \<mapsto> [])\<rparr> \<and>
         USER_INTERESTS (snd (get_latest_news s puch_user_id outcome)) puch_user_id = Some []"
  using assms by (simp add: get_latest_news_def user_interests_unknown)

theorem get_latest_news_unknown_identifier_witness:
  "''u1'' \<noteq> [] \<and> USER_INTERESTS (initial_state Absent) ''u1'' = None \<and>
   is_invalid_params (fst (get_latest_news (initial_state Absent) ''u1'' Timeout)) \<and>
   USER_INTERESTS (snd (get_latest_news (initial_state Absent) ''u1'' Timeout)) ''u1'' = Some []"
proof -
  have a: "''u1'' \<noteq> []" by simp
  have b: "USER_INTERESTS (initial_state Absent) ''u1'' = None"
    by (simp add: initial_state_def load_user_interests_def)
  from get_latest_news_unknown_identifier [OF a b, of Timeout] a b show ?thesis by blast
qed

section \<open>The empty identifier\<close>

text \<open>
  Claim C2 says that every entry point fails with \<open>InvalidArgument\<close> on the empty
  identifier. The code does so in \<^verbatim>\<open>get_latest_news\<close> only: \<^verbatim>\<open>hello_buzzbot\<close> and
  \<^verbatim>\<open>get_interests\<close> turn the \<open>InvalidArgument\<close> of \<^verbatim>\<open>_user_interests\<close> into an
  internal error, and \<^verbatim>\<open>set_interests\<close> accepts the empty identifier and stores the
  interests under it.
\<close>
theorem empty_identifier_entry_points:
  "hello_buzzbot s [] user_message = (Inl (INTERNAL_ERROR ''puch_user_id is required''), s) \<and>
   get_interests s [] = (Inl (INTERNAL_ERROR ''puch_user_id is required''), s) \<and>
   get_latest_news s [] outcome = (Inl (INVALID_PARAMS ''puch_user_id is required''), s) \<and>
   fst (set_interests s [] [''ai''] w) = Inr (Set_reply [] [''ai''] ''ready_for_news'')"
proof -
  have "clean_interests [''ai''] = [''ai'']" by code_simp
  then show ?thesis
    by (simp add: hello_buzzbot_def get_interests_def get_latest_news_def set_interests_def
        user_interests_empty_id)
qed

section \<open>Rejected topic lists\<close>

text \<open>
  Claim C6. For every identifier, \<^verbatim>\<open>set_interests\<close> fails with \<open>InvalidArgument\<close>
  exactly when the topic list is empty or every entry is empty after trimming, as for
  \<^verbatim>\<open>[]\<close> and \<^verbatim>\<open>[" ", ""]\<close>; it succeeds on every list with an entry that is
  non-empty after trimming.
\<close>
theorem set_interests_invalid_iff:
  "(is_invalid_params (fst (set_interests s puch_user_id interests w)) \<longleftrightarrow>
      interests = [] \<or> (\<forall>t\<in>set interests. py_strip t = [])) \<and>
   ((\<exists>t\<in>set interests. py_strip t \<noteq> []) \<longrightarrow>
      (\<exists>r. fst (set_interests s puch_user_id interests w) = Inr r)) \<and>
   is_invalid_params (fst (set_interests s puch_user_id [] w)) \<and>
   is_invalid_params (fst (set_interests s puch_user_id ['' '', ''''] w))"
proof -
  have "clean_interests ['' '', ''''] = []" by code_simp
  then have "is_invalid_params (fst (set_interests s puch_user_id ['' '', ''''] w))"
    by (simp add: set_interests_def)
  moreover have "is_invalid_params (fst (set_interests s puch_user_id [] w))"
    by (simp add: set_interests_def)
  moreover have "is_invalid_params (fst (set_interests s puch_user_id interests w)) \<longleftrightarrow>
      interests = [] \<or> (\<forall>t\<in>set interests. py_strip t = [])"
    by (auto simp: set_interests_def clean_interests_Nil_iff)
  moreover have "(\<exists>t\<in>set interests. py_strip t \<noteq> []) \<longrightarrow>
      (\<exists>r. fst (set_interests s puch_user_id interests w) = Inr r)"
    by (auto simp: set_interests_def clean_interests_Nil_iff)
  ultimately show ?thesis by blast
qed

theorem set_interests_invalid_iff_witness:
  "(\<exists>t\<in>set [''Sports'', '' '']. py_strip t \<noteq> []) \<and>
   (\<exists>r. fst (set_interests (initial_state Absent) ''u1'' [''Sports'', '' ''] Written) = Inr r) \<and>
   \<not> is_invalid_params (fst (set_interests (initial_state Absent) ''u1'' [''Sports'', '' ''] Written)) \<and>
   py_strip '' '' = [] \<and> py_strip '''' = [] \<and>
   is_invalid_params (fst (set_interests (initial_state Absent) ''u1'' ['' '', ''''] Written))"
proof -
  have a: "py_strip ''Sports'' \<noteq> []" by code_simp
  have b: "py_strip '' '' = []" by code_simp
  have c: "py_strip '''' = []" by code_simp
  from a
    set_interests_invalid_iff [of "initial_state Absent" "''u1''" "[''Sports'', '' '']" Written]
    set_interests_invalid_iff [of "initial_state Absent" "''u1''" "['' '', '''']" Written]
  show ?thesis by (simp add: b c)
qed

section \<open>Setting and reading back\<close>

text \<open>
  Claim C1. For every identifier, a non-empty string, and every topic list that is
  non-empty after normalization, \<^verbatim>\<open>set_interests\<close> followed by
  \<^verbatim>\<open>get_interests\<close> returns exactly the normalized list: each entry trimmed and
  lowercased, the entries that are empty after trimming dropped, in the order supplied.
\<close>
theorem set_then_get_interests:
  assumes "puch_user_id \<noteq> []" and "\<exists>t\<in>set interests. py_strip t \<noteq> []"
  shows "fst (set_interests s puch_user_id interests w) =
           Inr (Set_reply puch_user_id
                  (filter (\<lambda>t. t \<noteq> []) (map (\<lambda>t. py_lower (py_strip t)) interests))
                  ''ready_for_news'') \<and>
         fst (get_interests (snd (set_interests s puch_user_id interests w)) puch_user_id) =
           Inr (Interests_reply puch_user_id
                  (filter (\<lambda>t. t \<noteq> []) (map (\<lambda>t. py_lower (py_strip t)) interests))
                  (length (filter (\<lambda>t. t \<noteq> []) (map (\<lambda>t. py_lower (py_strip t)) interests)))
                  ''show_interests'')"
proof -
  let ?n = "clean_interests interests"
  let ?s' = "snd (set_interests s puch_user_id interests w)"
  from assms(2) have ne: "?n \<noteq> []" "interests \<noteq> []"
    by (auto simp: clean_interests_Nil_iff)
  then have r: "fst (set_interests s puch_user_id interests w) =
      Inr (Set_reply puch_user_id ?n ''ready_for_news'')"
    and m: "USER_INTERESTS ?s' puch_user_id = Some ?n"
    by (simp_all add: set_interests_def)
  from assms(1) m have "user_interests ?s' puch_user_id = (Inr ?n, ?s')"
    by (rule user_interests_known)
  then have "fst (get_interests ?s' puch_user_id) =
      Inr (Interests_reply puch_user_id ?n (length ?n) ''show_interests'')"
    by (simp add: get_interests_def)
  with r show ?thesis by (simp add: clean_interests_spec)
qed

theorem set_then_get_interests_witness:
  "''u1'' \<noteq> [] \<and> (\<exists>t\<in>set ['' Technology '', ''  '', ''SPORTS'']. py_strip t \<noteq> []) \<and>
   fst (get_interests
          (snd (set_interests (initial_state Absent) ''u1''
                  ['' Technology '', ''  '', ''SPORTS''] Written)) ''u1'') =
     Inr (Interests_reply ''u1'' [''technology'', ''sports''] 2 ''show_interests'')"
proof -
  have a: "''u1'' \<noteq> []" by simp
  have s: "py_strip ''SPORTS'' \<noteq> []" by code_simp
  then have b: "\<exists>t\<in>set ['' Technology '', ''  '', ''SPORTS'']. py_strip t \<noteq> []" by simp
  have c: "filter (\<lambda>t. t \<noteq> []) (map (\<lambda>t. py_lower (py_strip t))
             ['' Technology '', ''  '', ''SPORTS'']) = [''technology'', ''sports'']"
    by code_simp
  from set_then_get_interests [OF a b, of "initial_state Absent" Written, unfolded c] a b
  show ?thesis by simp
qed

section \<open>What the greeting changes\<close>

text \<open>
  Claim C3, amended. \<^verbatim>\<open>hello_buzzbot\<close> never touches the file, and it leaves the map
  in memory as it found it but for one case: a non-empty identifier that the map does
  not hold is added to it with the empty list.
\<close>
theorem hello_buzzbot_frame:
  "interests_file (snd (hello_buzzbot s puch_user_id user_message)) = interests_file s \<and>
   snd (hello_buzzbot s puch_user_id user_message) =
     (if puch_user_id \<noteq> [] \<and> USER_INTERESTS s puch_user_id = None
      then s\<lparr>USER_INTERESTS := (USER_INTERESTS s)(puch_user_id \<mapsto> [])\<rparr> else s)"
  by (auto simp: hello_buzzbot_def user_interests_def Let_def split: option.splits)

theorem hello_buzzbot_frame_witness:
  "''u1'' \<noteq> [] \<and> USER_INTERESTS (initial_state Absent) ''u1'' = None \<and>
   snd (hello_buzzbot (initial_state Absent) ''u1'' ''hello'') =
     (initial_state Absent)\<lparr>USER_INTERESTS := (USER_INTERESTS (initial_state Absent))(''u1'' \<mapsto> [])\<rparr>"
proof -
  have b: "USER_INTERESTS (initial_state Absent) ''u1'' = None"
    by (simp add: initial_state_def load_user_interests_def)
  from hello_buzzbot_frame [of "initial_state Absent" "''u1''" "''hello''"] b
  show ?thesis by simp
qed

text \<open>
  Claim C3 as stated, a pure read, fails for an identifier seen for the first time: the
  map in memory gains an entry.
\<close>

theorem hello_buzzbot_creates_entry:
  "USER_INTERESTS (initial_state Absent) ''u1'' = None \<and>
   USER_INTERESTS (snd (hello_buzzbot (initial_state Absent) ''u1'' ''hello'')) ''u1'' = Some [] \<and>
   snd (hello_buzzbot (initial_state Absent) ''u1'' ''hello'') \<noteq> initial_state Absent"
proof -
  have a: "USER_INTERESTS (initial_state Absent) ''u1'' = None"
    by (simp add: initial_state_def load_user_interests_def)
  then have b: "USER_INTERESTS (snd (hello_buzzbot (initial_state Absent) ''u1'' ''hello'')) ''u1'' = Some []"
    by (simp add: hello_buzzbot_def user_interests_def Let_def)
  from a b have "snd (hello_buzzbot (initial_state Absent) ''u1'' ''hello'') \<noteq> initial_state Absent"
    by auto
  with a b show ?thesis by blast
qed

section \<open>The relevance score\<close>

text \<open>
  Claim C4, amended. For every article whose title and description are strings (an
  absent one counts as the empty string) and every topic list, the relevance score is
  the count of topics that occur, case-insensitively, as a substring of the lowercased
  title, one space and the lowercased description, joined in that order. A topic that
  matches counts once, however often it occurs. For the topics \<^verbatim>\<open>["ai", "robotics"]\<close>,
  the title \<^verbatim>\<open>"AI breakthroughs in robotics"\<close> and the empty description the score
  is 2.
\<close>
theorem calculate_relevance_counts_topics:
  assumes "dict_get article ''title'' (JStr []) = JStr t"
    and "dict_get article ''description'' (JStr []) = JStr d"
  shows "calculate_relevance article interests =
           Inr (length (filter (\<lambda>topic. \<exists>p s. py_lower t @ '' '' @ py_lower d = p @ py_lower topic @ s)
                          interests)) \<and>
         calculate_relevance
           [(''title'', JStr ''AI breakthroughs in robotics''), (''description'', JStr '''')]
           [''ai'', ''robotics''] = Inr 2"
proof -
  have "calculate_relevance article interests =
      Inr (count_matches (py_lower t @ '' '' @ py_lower d) interests)"
    using assms by (simp add: calculate_relevance_def)
  then have "calculate_relevance article interests =
      Inr (length (filter (\<lambda>topic. \<exists>p s. py_lower t @ '' '' @ py_lower d = p @ py_lower topic @ s)
                     interests))"
    by (simp add: count_matches_filter py_in_iff)
  moreover have "calculate_relevance
      [(''title'', JStr ''AI breakthroughs in robotics''), (''description'', JStr '''')]
      [''ai'', ''robotics''] = Inr 2"
    by code_simp
  ultimately show ?thesis by blast
qed

theorem calculate_relevance_counts_topics_witness:
  "dict_get [(''title'', JStr ''AI AI ai'')] ''title'' (JStr []) = JStr ''AI AI ai'' \<and>
   dict_get [(''title'', JStr ''AI AI ai'')] ''description'' (JStr []) = JStr [] \<and>
   calculate_relevance [(''title'', JStr ''AI AI ai'')] [''ai'', ''Robotics''] = Inr 1"
proof -
  have a: "dict_get [(''title'', JStr ''AI AI ai'')] ''title'' (JStr []) = JStr ''AI AI ai''"
    by (simp add: dict_get_def)
  have b: "dict_get [(''title'', JStr ''AI AI ai'')] ''description'' (JStr []) = JStr []"
    by (simp add: dict_get_def)
  have c: "calculate_relevance [(''title'', JStr ''AI AI ai'')] [''ai'', ''Robotics''] = Inr 1"
    by code_simp
  from calculate_relevance_counts_topics [OF a b, of "[''ai'', ''Robotics'']"] a b c
  show ?thesis by blast
qed

text \<open>
  Claim C4 as stated, with the plain concatenation of title and description, fails when
  a topic spans the two: the code puts a space between them.
\<close>

theorem calculate_relevance_separator:
  "calculate_relevance [(''title'', JStr ''a''), (''description'', JStr ''b'')] [''ab''] = Inr 0 \<and>
   spec_score ''a'' ''b'' [''ab''] = 1"
  by code_simp

section \<open>The ranking step\<close>

text \<open>
  Claim C5 says that for every list of candidate articles and every topic list the
  ranking step returns the same elements, ordered by relevance score descending, ties in
  input order, and at most five of them. The code does so for every response whose first
  five candidates are well formed: it returns their articles, each scored against the
  topics, stably sorted by score, highest first. It does not when a candidate has a
  field of another kind: for a \<^verbatim>\<open>null\<close> description, which the default of
  \<^verbatim>\<open>article.get("description", "")\<close> does not cover, \<^verbatim>\<open>.lower()\<close> raises and the
  whole result is the empty list.
\<close>
theorem fetch_ranks_candidates:
  assumes "interests \<noteq> []" and "\<not> raise_for_status status_code"
    and "dict_get data ''articles'' (JArr []) = JArr articles"
    and "list_all well_formed_candidate (take 5 articles)"
  shows "fetch_news_by_interests interests (Response status_code (Some (JObj data))) =
           take 5 (sort_reverse relevance_score (map (scored_article interests) (take 5 articles))) \<and>
         mset (sort_reverse relevance_score (map (scored_article interests) (take 5 articles))) =
           mset (map (scored_article interests) (take 5 articles)) \<and>
         length (sort_reverse relevance_score (map (scored_article interests) (take 5 articles))) =
           length (take 5 articles) \<and>
         sorted_wrt (\<lambda>a b. relevance_score b \<le> relevance_score a)
           (sort_reverse relevance_score (map (scored_article interests) (take 5 articles))) \<and>
         (\<forall>v. filter (\<lambda>a. relevance_score a = v)
                (sort_reverse relevance_score (map (scored_article interests) (take 5 articles))) =
              filter (\<lambda>a. relevance_score a = v) (map (scored_article interests) (take 5 articles))) \<and>
         length (fetch_news_by_interests interests (Response status_code (Some (JObj data)))) \<le> 5 \<and>
         fetch_news_by_interests [''ai'']
           (Response 200 (Some (JObj [(''articles'',
              JArr [JObj [(''title'', JStr ''AI wins''), (''description'', JNull)]])]))) = []"
proof -
  have "fetch_news_by_interests interests (Response status_code (Some (JObj data))) =
      take 5 (sort_reverse relevance_score (map (scored_article interests) (take 5 articles)))"
    using assms by (simp add: fetch_well_formed rank_articles_def)
  moreover have "fetch_news_by_interests [''ai'']
      (Response 200 (Some (JObj [(''articles'',
         JArr [JObj [(''title'', JStr ''AI wins''), (''description'', JNull)]])]))) = []"
    by code_simp
  ultimately show ?thesis
    by (simp add: sorted_sort_reverse stable_sort_reverse fetch_at_most_five)
qed

section \<open>News needs interests\<close>


section \<open>A failed fetch\<close>



section \<open>The invariant of the store\<close>

text \<open>
  Claim C9. Every operation preserves the invariant that each topic stored in the map
  is a non-empty, trimmed, lowercased string (so no list holds an empty or
  whitespace-only entry). Duplicates are kept: \<^verbatim>\<open>set_interests\<close> stores the normalized
  entries one by one, so a topic supplied \<open>n\<close> times is stored at least \<open>n\<close> times.
\<close>
theorem store_inv_preserved:
  assumes "store_inv (USER_INTERESTS s)"
  shows "store_inv (USER_INTERESTS (snd (hello_buzzbot s puch_user_id user_message))) \<and>
         store_inv (USER_INTERESTS (snd (set_interests s puch_user_id interests w))) \<and>
         store_inv (USER_INTERESTS (snd (get_interests s puch_user_id))) \<and>
         store_inv (USER_INTERESTS (snd (get_latest_news s puch_user_id outcome))) \<and>
         ((\<exists>t\<in>set interests. py_strip t \<noteq> []) \<longrightarrow>
            USER_INTERESTS (snd (set_interests s puch_user_id interests w)) puch_user_id =
              Some (filter (\<lambda>t. t \<noteq> []) (map (\<lambda>t. py_lower (py_strip t)) interests))) \<and>
         (\<forall>t. py_strip t \<noteq> [] \<longrightarrow>
            count_list interests t \<le>
              count_list (filter (\<lambda>t. t \<noteq> []) (map (\<lambda>t. py_lower (py_strip t)) interests))
                (py_lower (py_strip t)))"
proof -
  have "list_all topic_ok (clean_interests interests)"
    by (simp add: list_all_iff topic_ok_clean)
  with assms have "store_inv (USER_INTERESTS (snd (set_interests s puch_user_id interests w)))"
    by (simp add: set_interests_def store_inv_update)
  moreover have "USER_INTERESTS (snd (set_interests s puch_user_id interests w)) puch_user_id =
      Some (filter (\<lambda>t. t \<noteq> []) (map (\<lambda>t. py_lower (py_strip t)) interests))"
    if "\<exists>t\<in>set interests. py_strip t \<noteq> []"
  proof -
    from that have "clean_interests interests \<noteq> []" "interests \<noteq> []"
      by (auto simp: clean_interests_Nil_iff)
    then show ?thesis by (simp add: set_interests_def clean_interests_spec)
  qed
  moreover have "count_list interests t \<le>
      count_list (filter (\<lambda>t. t \<noteq> []) (map (\<lambda>t. py_lower (py_strip t)) interests))
        (py_lower (py_strip t))" if "py_strip t \<noteq> []" for t
    using count_list_clean [OF that, of interests] by (simp add: clean_interests_spec)
  ultimately show ?thesis
    using store_inv_user_interests [OF assms, of puch_user_id]
    by (simp add: snd_hello_buzzbot snd_get_interests snd_get_latest_news)
qed

theorem fetch_ranks_candidates_witness:
  "[''ai'', ''robotics''] \<noteq> [] \<and> \<not> raise_for_status 200 \<and>
   dict_get
     [(''articles'', JArr [JObj [(''title'', JStr ''Cooking'')],
                           JObj [(''title'', JStr ''AI and robotics'')],
                           JObj [(''title'', JStr ''Robots''), (''description'', JStr ''Robotics in AI'')]])]
     ''articles'' (JArr []) =
     JArr [JObj [(''title'', JStr ''Cooking'')],
           JObj [(''title'', JStr ''AI and robotics'')],
           JObj [(''title'', JStr ''Robots''), (''description'', JStr ''Robotics in AI'')]] \<and>
   list_all well_formed_candidate
     (take 5 [JObj [(''title'', JStr ''Cooking'')],
              JObj [(''title'', JStr ''AI and robotics'')],
              JObj [(''title'', JStr ''Robots''), (''description'', JStr ''Robotics in AI'')]]) \<and>
   fetch_news_by_interests [''ai'', ''robotics'']
     (Response 200 (Some (JObj
        [(''articles'', JArr [JObj [(''title'', JStr ''Cooking'')],
                              JObj [(''title'', JStr ''AI and robotics'')],
                              JObj [(''title'', JStr ''Robots''), (''description'', JStr ''Robotics in AI'')]])]))) =
     [\<lparr>title = JStr ''AI and robotics'', description = JStr [], url = JStr [],
        published_at = JStr [], source = JStr [], relevance_score = 2\<rparr>,
      \<lparr>title = JStr ''Robots'', description = JStr ''Robotics in AI'', url = JStr [],
        published_at = JStr [], source = JStr [], relevance_score = 2\<rparr>,
      \<lparr>title = JStr ''Cooking'', description = JStr [], url = JStr [],
        published_at = JStr [], source = JStr [], relevance_score = 0\<rparr>]"
proof -
  let ?arts = "[JObj [(''title'', JStr ''Cooking'')],
                JObj [(''title'', JStr ''AI and robotics'')],
                JObj [(''title'', JStr ''Robots''), (''description'', JStr ''Robotics in AI'')]]"
  have a: "[''ai'', ''robotics''] \<noteq> []" by simp
  have b: "\<not> raise_for_status 200" by (simp add: raise_for_status_def)
  have c: "dict_get [(''articles'', JArr ?arts)] ''articles'' (JArr []) = JArr ?arts"
    by (simp add: dict_get_def)
  have d: "list_all well_formed_candidate (take 5 ?arts)" by code_simp
  have e: "take 5 (sort_reverse relevance_score
             (map (scored_article [''ai'', ''robotics'']) (take 5 ?arts))) =
      [\<lparr>title = JStr ''AI and robotics'', description = JStr [], url = JStr [],
         published_at = JStr [], source = JStr [], relevance_score = 2\<rparr>,
       \<lparr>title = JStr ''Robots'', description = JStr ''Robotics in AI'', url = JStr [],
         published_at = JStr [], source = JStr [], relevance_score = 2\<rparr>,
       \<lparr>title = JStr ''Cooking'', description = JStr [], url = JStr [],
         published_at = JStr [], source = JStr [], relevance_score = 0\<rparr>]"
    by code_simp
  from fetch_ranks_candidates [OF a b c d, unfolded e]
  have "fetch_news_by_interests [''ai'', ''robotics'']
      (Response 200 (Some (JObj [(''articles'', JArr ?arts)]))) =
      [\<lparr>title = JStr ''AI and robotics'', description = JStr [], url = JStr [],
         published_at = JStr [], source = JStr [], relevance_score = 2\<rparr>,
       \<lparr>title = JStr ''Robots'', description = JStr ''Robotics in AI'', url = JStr [],
         published_at = JStr [], source = JStr [], relevance_score = 2\<rparr>,
       \<lparr>title = JStr ''Cooking'', description = JStr [], url = JStr [],
         published_at = JStr [], source = JStr [], relevance_score = 0\<rparr>]"
    by (rule conjunct1)
  with a b c d show ?thesis by (intro conjI)
qed



theorem store_inv_preserved_witness:
  "store_inv (USER_INTERESTS (initial_state Absent)) \<and>
   (\<exists>t\<in>set [''AI'', '' ai '', ''  '']. py_strip t \<noteq> []) \<and>
   store_inv (USER_INTERESTS
     (snd (set_interests (initial_state Absent) ''u1'' [''AI'', '' ai '', ''  ''] Written))) \<and>
   USER_INTERESTS (snd (set_interests (initial_state Absent) ''u1'' [''AI'', '' ai '', ''  ''] Written))
     ''u1'' = Some [''ai'', ''ai'']"
proof -
  have a: "store_inv (USER_INTERESTS (initial_state Absent))"
    by (simp add: store_inv_def initial_state_def load_user_interests_def)
  have "py_strip ''AI'' \<noteq> []" by code_simp
  then have b: "\<exists>t\<in>set [''AI'', '' ai '', ''  '']. py_strip t \<noteq> []" by simp
  have c: "filter (\<lambda>t. t \<noteq> []) (map (\<lambda>t. py_lower (py_strip t)) [''AI'', '' ai '', ''  '']) =
      [''ai'', ''ai'']"
    by code_simp
  from store_inv_preserved [OF a, where puch_user_id = "''u1''"
      and interests = "[''AI'', '' ai '', ''  '']" and w = Written, unfolded c] a b
  show ?thesis by blast
qed

end
